theory Spec2Isabelle
  imports Main
begin

section \<open>The matches shown by the dashboard\<close>

text \<open>
  The dashboard components declare the shape of a match as
  \<^verbatim>\<open>interface Match { _id: string; Age: number; Gender: string; Caste?: string;
  Sect?: string; State?: string; Marital_Status?: string; content?: string }\<close>.
  An optional property is an \<open>option\<close>: \<open>None\<close> is JavaScript's \<open>undefined\<close>.
  The field \<open>_id\<close> is named \<open>Match_id\<close> here, since an identifier cannot start with an
  underscore. \<open>Age\<close> is an integer: the ages of this application are whole years.
\<close>

record Match =
  Match_id :: string
  Age :: int
  Gender :: string
  Caste :: "string option"
  Sect :: "string option"
  State :: "string option"
  Marital_Status :: "string option"
  content :: "string option"

section \<open>The AI review panel\<close>

text \<open>
  \<open>generateCompatibilityScore\<close> of the review panel closes over the two properties
  \<open>match1\<close> and \<open>match2\<close> of the component, both optional; here they are its arguments.
  \<open>score_before_cap\<close> is the value of the local variable \<open>score\<close> after the five
  conditional increments, just before \<open>Math.min(score, 100)\<close>. The comparison \<open>===\<close> of
  two optional strings is equality of options: two absent values are equal.
\<close>

definition score_before_cap :: "Match \<Rightarrow> Match \<Rightarrow> int" where
  "score_before_cap match1 match2 =
     (let score = 70;
          score = (if Caste match1 = Caste match2 then score + 5 else score);
          score = (if Sect match1 = Sect match2 then score + 5 else score);
          score = (if State match1 = State match2 then score + 5 else score);
          score = (if \<bar>Age match1 - Age match2\<bar> \<le> 5 then score + 5 else score);
          score = (if Marital_Status match1 = Marital_Status match2 then score + 5 else score)
      in score)"

definition generateCompatibilityScore :: "Match option \<Rightarrow> Match option \<Rightarrow> int" where
  "generateCompatibilityScore match1 match2 =
     (case match1 of
        None \<Rightarrow> 0
      | Some m1 \<Rightarrow>
          (case match2 of
             None \<Rightarrow> 0
           | Some m2 \<Rightarrow> min (score_before_cap m1 m2) 100))"

text \<open>
  The first two records that the match route returns, as the page hands them to the
  panel: used as concrete inputs below.
\<close>

definition profile_a :: Match where
  "profile_a = \<lparr>Match_id = ''507f1f77bcf86cd799439011'', Age = 28, Gender = ''Female'',
     Caste = Some ''Brahmin'', Sect = Some ''Hindu'', State = Some ''California'',
     Marital_Status = Some ''Never Married'',
     content = Some
       ''Looking for a caring and ambitious partner who values family and personal growth.''\<rparr>"

definition profile_b :: Match where
  "profile_b = \<lparr>Match_id = ''507f1f77bcf86cd799439012'', Age = 26, Gender = ''Female'',
     Caste = Some ''Kshatriya'', Sect = Some ''Hindu'', State = Some ''Texas'',
     Marital_Status = Some ''Never Married'',
     content = Some
       ''Passionate about travel and cooking. Seeking someone with similar interests.''\<rparr>"

section \<open>The match route\<close>

text \<open>
  The route handler \<open>GET\<close> answers with \<open>Response.json\<close> of an object literal. Its
  values are modelled as JSON values; an object is a finite map from property names to
  values, so the order of the properties is not represented.
\<close>

datatype json =
    JString string
  | JNumber int
  | JArray "json list"
  | JObject "string \<Rightarrow> json option"

text \<open>
  The handler reads the request only through \<open>new URL(request.url).searchParams\<close>. A
  request is therefore represented by its search parameters: the list of name-value
  pairs of the query string, in order, duplicates included. \<open>get\<close> returns the first
  value of a name, or \<open>null\<close> (\<open>None\<close>).
\<close>

type_synonym URLSearchParams = "(string \<times> string) list"

definition searchParams_get :: "URLSearchParams \<Rightarrow> string \<Rightarrow> string option" where
  "searchParams_get searchParams name = map_of searchParams name"

text \<open>
  \<open>Object.fromEntries\<close> defines one property per pair, in order: a later pair with the
  same name overwrites the earlier one.
\<close>

definition fromEntries :: "URLSearchParams \<Rightarrow> json" where
  "fromEntries entries =
     JObject (foldl (\<lambda>obj (k, v). obj(k \<mapsto> JString v)) Map.empty entries)"

record Response =
  status :: nat
  body :: json

text \<open>\<open>Response.json(data)\<close> has the default status 200.\<close>

definition Response_json :: "json \<Rightarrow> Response" where
  "Response_json data = \<lparr>status = 200, body = data\<rparr>"

text \<open>
  \<open>response.ok\<close>, which \<open>handleSearch\<close> tests to tell a success from an error, holds
  of the statuses 200 to 299.
\<close>

definition ok :: "Response \<Rightarrow> bool" where
  "ok response = (200 \<le> status response \<and> status response \<le> 299)"

definition mockResults :: "json list" where
  "mockResults =
     [JObject [''_id'' \<mapsto> JString ''507f1f77bcf86cd799439011'',
               ''Age'' \<mapsto> JNumber 28,
               ''Gender'' \<mapsto> JString ''Female'',
               ''Caste'' \<mapsto> JString ''Brahmin'',
               ''Sect'' \<mapsto> JString ''Hindu'',
               ''State'' \<mapsto> JString ''California'',
               ''Marital_Status'' \<mapsto> JString ''Never Married'',
               ''content'' \<mapsto> JString
                 ''Looking for a caring and ambitious partner who values family and personal growth.''],
      JObject [''_id'' \<mapsto> JString ''507f1f77bcf86cd799439012'',
               ''Age'' \<mapsto> JNumber 26,
               ''Gender'' \<mapsto> JString ''Female'',
               ''Caste'' \<mapsto> JString ''Kshatriya'',
               ''Sect'' \<mapsto> JString ''Hindu'',
               ''State'' \<mapsto> JString ''Texas'',
               ''Marital_Status'' \<mapsto> JString ''Never Married'',
               ''content'' \<mapsto> JString
                 ''Passionate about travel and cooking. Seeking someone with similar interests.''],
      JObject [''_id'' \<mapsto> JString ''507f1f77bcf86cd799439013'',
               ''Age'' \<mapsto> JNumber 29,
               ''Gender'' \<mapsto> JString ''Female'',
               ''Caste'' \<mapsto> JString ''Brahmin'',
               ''Sect'' \<mapsto> JString ''Hindu'',
               ''State'' \<mapsto> JString ''New York'',
               ''Marital_Status'' \<mapsto> JString ''Never Married'',
               ''content'' \<mapsto> JString
                 ''Professional woman interested in building a meaningful relationship.'']]"

text \<open>
  In \<open>searchParams.get("query") || "looking for suitable partner"\<close> the default is taken
  when the parameter is absent and also when its value is the empty string.
\<close>

definition GET :: "URLSearchParams \<Rightarrow> Response" where
  "GET searchParams =
     Response_json (JObject
       [''query'' \<mapsto> JString (case searchParams_get searchParams ''query'' of
                                 None \<Rightarrow> ''looking for suitable partner''
                               | Some q \<Rightarrow>
                                   if q = [] then ''looking for suitable partner'' else q),
        ''filters'' \<mapsto> fromEntries searchParams,
        ''candidates'' \<mapsto> JNumber 45,
        ''took_ms'' \<mapsto> JNumber 234,
        ''results'' \<mapsto> JArray mockResults])"

subsection \<open>Reading a response\<close>

definition property :: "string \<Rightarrow> json \<Rightarrow> json option" where
  "property name v = (case v of JObject obj \<Rightarrow> obj name | _ \<Rightarrow> None)"

definition string_property :: "string \<Rightarrow> json \<Rightarrow> string option" where
  "string_property name v = (case property name v of Some (JString s) \<Rightarrow> Some s | _ \<Rightarrow> None)"

definition number_property :: "string \<Rightarrow> json \<Rightarrow> int option" where
  "number_property name v = (case property name v of Some (JNumber n) \<Rightarrow> Some n | _ \<Rightarrow> None)"

definition object_keys :: "json \<Rightarrow> string set option" where
  "object_keys v = (case v of JObject obj \<Rightarrow> Some (dom obj) | _ \<Rightarrow> None)"

text \<open>The \<open>results\<close> list of a response, and the \<open>_id\<close> of each of its records.\<close>

definition response_results :: "Response \<Rightarrow> json list" where
  "response_results response =
     (case property ''results'' (body response) of Some (JArray rs) \<Rightarrow> rs | _ \<Rightarrow> [])"

definition result_ids :: "Response \<Rightarrow> string option list" where
  "result_ids response = map (string_property ''_id'') (response_results response)"

text \<open>
  A record has the shape of a profile when it is an object with the properties of the
  interface \<open>Match\<close> and no other: \<open>_id\<close> and \<open>Gender\<close> strings, \<open>Age\<close> a number, and
  the optional \<open>Caste\<close>, \<open>Sect\<close>, \<open>State\<close>, \<open>Marital_Status\<close> and \<open>content\<close> strings
  when present.
\<close>

definition is_string :: "json option \<Rightarrow> bool" where
  "is_string v = (case v of Some (JString _) \<Rightarrow> True | _ \<Rightarrow> False)"

definition is_number :: "json option \<Rightarrow> bool" where
  "is_number v = (case v of Some (JNumber _) \<Rightarrow> True | _ \<Rightarrow> False)"

definition is_optional_string :: "json option \<Rightarrow> bool" where
  "is_optional_string v = (case v of None \<Rightarrow> True | Some (JString _) \<Rightarrow> True | _ \<Rightarrow> False)"

definition profile_shaped :: "json \<Rightarrow> bool" where
  "profile_shaped v =
     (case v of
        JObject obj \<Rightarrow>
          is_string (obj ''_id'') \<and> is_number (obj ''Age'') \<and> is_string (obj ''Gender'') \<and>
          is_optional_string (obj ''Caste'') \<and> is_optional_string (obj ''Sect'') \<and>
          is_optional_string (obj ''State'') \<and> is_optional_string (obj ''Marital_Status'') \<and>
          is_optional_string (obj ''content'') \<and>
          dom obj \<subseteq> {''_id'', ''Age'', ''Gender'', ''Caste'', ''Sect'', ''State'',
                      ''Marital_Status'', ''content''}
      | _ \<Rightarrow> False)"

subsection \<open>The structured filters of a request, as the specification reads them\<close>

text \<open>
  The route reads no filter parameter. The predicates of this subsection say what it
  means for a record to satisfy the filters of a request, following the specification:
  \<open>gender\<close>, \<open>caste\<close>, \<open>sect\<close>, \<open>state\<close> and \<open>marital_status\<close> compare with the
  properties \<open>Gender\<close>, \<open>Caste\<close>, \<open>Sect\<close>, \<open>State\<close> and \<open>Marital_Status\<close> of the record
  without regard to the case of the ASCII letters, and \<open>Age\<close> lies between \<open>min_age\<close>
  and \<open>max_age\<close>.

  A filter is specified as soon as the request supplies its parameter, whatever the
  value, the empty string included. When a parameter is supplied more than once, the
  request specifies its last value: this is the value that the \<open>filters\<close> of the
  response echo.
\<close>

definition request_filters :: "URLSearchParams \<Rightarrow> string \<Rightarrow> string option" where
  "request_filters searchParams name = map_of (rev searchParams) name"

text \<open>The filters that a response echoes: the string properties of its \<open>filters\<close>.\<close>

definition response_filters :: "Response \<Rightarrow> string \<Rightarrow> string option" where
  "response_filters response name =
     (case property ''filters'' (body response) of
        None \<Rightarrow> None
      | Some fs \<Rightarrow> string_property name fs)"

definition lower_char :: "char \<Rightarrow> char" where
  "lower_char c =
     (case map_of (zip ''ABCDEFGHIJKLMNOPQRSTUVWXYZ'' ''abcdefghijklmnopqrstuvwxyz'') c of
        None \<Rightarrow> c
      | Some l \<Rightarrow> l)"

definition toLowerCase :: "string \<Rightarrow> string" where
  "toLowerCase s = map lower_char s"

definition digit_value :: "char \<Rightarrow> nat option" where
  "digit_value c = map_of (zip ''0123456789'' [0, 1, 2, 3, 4, 5, 6, 7, 8, 9]) c"

fun decimal :: "nat \<Rightarrow> string \<Rightarrow> nat option" where
  "decimal acc [] = Some acc"
| "decimal acc (c # cs) =
     (case digit_value c of None \<Rightarrow> None | Some d \<Rightarrow> decimal (10 * acc + d) cs)"

text \<open>
  An age bound is an integer: one or more decimal digits, after an optional sign \<open>-\<close>
  or \<open>+\<close>. Any other value of \<open>min_age\<close> or \<open>max_age\<close> (the empty string, \<open>99.5\<close>, a
  value with a space) is malformed. A malformed bound is not an absent filter: the
  specification makes such a request invalid, and no record satisfies it.
\<close>

definition unsigned_int :: "string \<Rightarrow> int option" where
  "unsigned_int s = (if s = [] then None else map_option int (decimal 0 s))"

definition parse_int :: "string \<Rightarrow> int option" where
  "parse_int s =
     (case s of
        [] \<Rightarrow> None
      | c # cs \<Rightarrow>
          if c = CHR ''-'' then map_option uminus (unsigned_int cs)
          else if c = CHR ''+'' then unsigned_int cs
          else unsigned_int s)"

datatype bound = Unspecified | Bound int | Malformed

definition age_bound :: "(string \<Rightarrow> string option) \<Rightarrow> string \<Rightarrow> bound" where
  "age_bound filters name =
     (case filters name of
        None \<Rightarrow> Unspecified
      | Some v \<Rightarrow> (case parse_int v of None \<Rightarrow> Malformed | Some n \<Rightarrow> Bound n))"

definition string_filter_holds ::
  "(string \<Rightarrow> string option) \<Rightarrow> string \<Rightarrow> string \<Rightarrow> json \<Rightarrow> bool" where
  "string_filter_holds filters name field r =
     (case filters name of
        None \<Rightarrow> True
      | Some v \<Rightarrow>
          (case string_property field r of
             None \<Rightarrow> False
           | Some s \<Rightarrow> toLowerCase s = toLowerCase v))"

definition min_age_holds :: "(string \<Rightarrow> string option) \<Rightarrow> json \<Rightarrow> bool" where
  "min_age_holds filters r =
     (case age_bound filters ''min_age'' of
        Unspecified \<Rightarrow> True
      | Bound lo \<Rightarrow> (case number_property ''Age'' r of None \<Rightarrow> False | Some a \<Rightarrow> lo \<le> a)
      | Malformed \<Rightarrow> False)"

definition max_age_holds :: "(string \<Rightarrow> string option) \<Rightarrow> json \<Rightarrow> bool" where
  "max_age_holds filters r =
     (case age_bound filters ''max_age'' of
        Unspecified \<Rightarrow> True
      | Bound hi \<Rightarrow> (case number_property ''Age'' r of None \<Rightarrow> False | Some a \<Rightarrow> a \<le> hi)
      | Malformed \<Rightarrow> False)"

definition satisfies_filters :: "(string \<Rightarrow> string option) \<Rightarrow> json \<Rightarrow> bool" where
  "satisfies_filters filters r =
     (string_filter_holds filters ''gender'' ''Gender'' r \<and>
      min_age_holds filters r \<and>
      max_age_holds filters r \<and>
      string_filter_holds filters ''caste'' ''Caste'' r \<and>
      string_filter_holds filters ''sect'' ''Sect'' r \<and>
      string_filter_holds filters ''state'' ''State'' r \<and>
      string_filter_holds filters ''marital_status'' ''Marital_Status'' r)"

text \<open>
  The candidates of the route are its three fixed records. \<open>top_k\<close> is read as a
  string of decimal digits, from the first value of the parameter.
\<close>

definition no_candidate_satisfies :: "URLSearchParams \<Rightarrow> bool" where
  "no_candidate_satisfies searchParams =
     (\<not> list_ex (satisfies_filters (request_filters searchParams)) mockResults)"

definition all_results_satisfy :: "URLSearchParams \<Rightarrow> Response \<Rightarrow> bool" where
  "all_results_satisfy searchParams response =
     list_all (satisfies_filters (request_filters searchParams)) (response_results response)"

definition top_k :: "URLSearchParams \<Rightarrow> nat option" where
  "top_k searchParams =
     (case searchParams_get searchParams ''top_k'' of None \<Rightarrow> None | Some v \<Rightarrow>
        if v = [] then None else decimal 0 v)"

section \<open>The search of the dashboard page\<close>

text \<open>
  \<open>handleSearch\<close> receives
  \<^verbatim>\<open>interface SearchParams { gender?: string; same_gender?: boolean;
  age_range?: [number, number]; caste?: string; sect?: string; marital_status?: string;
  state?: string; preference?: string; user_id?: string; age_tolerance?: number }\<close>
  and builds the query parameters of the request to \<open>/match\<close>. Numbers are integers,
  as the ages are, and \<open>toString\<close> writes them in decimal.
\<close>

record SearchParams =
  gender :: "string option"
  same_gender :: "bool option"
  age_range :: "(int \<times> int) option"
  caste :: "string option"
  sect :: "string option"
  marital_status :: "string option"
  state :: "string option"
  preference :: "string option"
  user_id :: "string option"
  age_tolerance :: "int option"

definition API_BASE_URL :: string where
  "API_BASE_URL = ''http://localhost:3000''"

fun digits :: "nat \<Rightarrow> string" where
  "digits n =
     (if n < 10 then [''0123456789'' ! n]
      else digits (n div 10) @ [''0123456789'' ! (n mod 10)])"

declare digits.simps [simp del]

definition toString :: "int \<Rightarrow> string" where
  "toString n = (if n < 0 then CHR ''-'' # digits (nat (- n)) else digits (nat n))"

definition searchParams_append :: "URLSearchParams \<Rightarrow> string \<Rightarrow> string \<Rightarrow> URLSearchParams" where
  "searchParams_append queryParams name v = queryParams @ [(name, v)]"

text \<open>
  \<open>if (params.x) queryParams.append(name, params.x)\<close> for an optional string \<open>x\<close>:
  the pair is appended when \<open>x\<close> is present and not the empty string.
\<close>

definition append_if_value :: "URLSearchParams \<Rightarrow> string \<Rightarrow> string option \<Rightarrow> URLSearchParams" where
  "append_if_value queryParams name x =
     (case x of
        None \<Rightarrow> queryParams
      | Some v \<Rightarrow> if v = [] then queryParams else searchParams_append queryParams name v)"

text \<open>The pairs that one such statement adds to the parameters.\<close>

definition optional_param :: "string \<Rightarrow> string option \<Rightarrow> URLSearchParams" where
  "optional_param name x = append_if_value [] name x"

definition handleSearch_queryParams :: "SearchParams \<Rightarrow> URLSearchParams" where
  "handleSearch_queryParams params =
     (let queryParams = [];
          queryParams = append_if_value queryParams ''query'' (preference params);
          queryParams = append_if_value queryParams ''user_id'' (user_id params);
          queryParams = append_if_value queryParams ''gender'' (gender params);
          queryParams = (if same_gender params = Some True
                         then searchParams_append queryParams ''same_gender'' ''true''
                         else queryParams);
          queryParams = append_if_value queryParams ''caste'' (caste params);
          queryParams = append_if_value queryParams ''sect'' (sect params);
          queryParams = append_if_value queryParams ''marital_status'' (marital_status params);
          queryParams = append_if_value queryParams ''state'' (state params);
          queryParams = (case age_tolerance params of
                           None \<Rightarrow> queryParams
                         | Some t \<Rightarrow>
                             searchParams_append queryParams ''age_tolerance'' (toString t));
          queryParams = (case age_range params of
                           None \<Rightarrow> queryParams
                         | Some (lo, hi) \<Rightarrow>
                             searchParams_append
                               (searchParams_append queryParams ''min_age'' (toString lo))
                               ''max_age'' (toString hi));
          queryParams = searchParams_append queryParams ''top_k'' ''10''
      in queryParams)"

text \<open>
  The URL of the request is \<open>API_BASE_URL\<close>, the path \<open>/match\<close> and the serialised
  query parameters. It is kept in its parts: the claims speak of the parameters the URL
  carries, and the percent-encoding of \<open>toString\<close> is not modelled.
\<close>

record URL =
  origin :: string
  pathname :: string
  searchParams :: URLSearchParams

definition handleSearch_url :: "SearchParams \<Rightarrow> URL" where
  "handleSearch_url params =
     \<lparr>origin = API_BASE_URL, pathname = ''/match'',
      searchParams = handleSearch_queryParams params\<rparr>"

text \<open>
  \<open>has\<close> of \<open>URLSearchParams\<close>: some pair has the name. A URL contains a parameter when
  its parameters have the name, and contains \<open>name=v\<close> when they hold that pair.
\<close>

definition searchParams_has :: "URLSearchParams \<Rightarrow> string \<Rightarrow> bool" where
  "searchParams_has queryParams name = (name \<in> set (map fst queryParams))"

definition has_param :: "URL \<Rightarrow> string \<Rightarrow> bool" where
  "has_param url name = searchParams_has (searchParams url) name"

definition has_pair :: "URL \<Rightarrow> string \<Rightarrow> string \<Rightarrow> bool" where
  "has_pair url name v = ((name, v) \<in> set (searchParams url))"

text \<open>
  The parameters that the search form submits in its initial state, with a preference
  text typed in: used as a concrete input below.
\<close>

definition form_params :: SearchParams where
  "form_params =
     \<lparr>gender = Some ''Male'', same_gender = Some False, age_range = Some (22, 32),
      caste = None, sect = None, marital_status = None, state = None,
      preference = Some ''educated partner'', user_id = None, age_tolerance = Some 5\<rparr>"

section \<open>Properties of the compatibility score\<close>

lemma score_before_cap_values:
  "score_before_cap a b \<in> {70, 75, 80, 85, 90, 95}"
  by (simp add: score_before_cap_def Let_def)

text \<open>
  Claim C8. The score is 0 as soon as one of the two matches is absent. When both are
  present it is one of 70, 75, 80, 85, 90, 95, and it is the uncapped score itself:
  the cap at 100 of \<open>Math.min\<close> never changes the value.
\<close>

theorem generateCompatibilityScore_range:
  "(match1 = None \<or> match2 = None \<longrightarrow> generateCompatibilityScore match1 match2 = 0) \<and>
   (match1 = Some m1 \<and> match2 = Some m2 \<longrightarrow>
      generateCompatibilityScore match1 match2 \<in> {70, 75, 80, 85, 90, 95} \<and>
      generateCompatibilityScore match1 match2 = score_before_cap m1 m2 \<and>
      score_before_cap m1 m2 < 100)"
proof -
  have vals: "score_before_cap m1 m2 \<in> {70, 75, 80, 85, 90, 95}"
    by (rule score_before_cap_values)
  then have below: "score_before_cap m1 m2 < 100"
    by auto
  show ?thesis
    using vals below
    by (auto simp: generateCompatibilityScore_def split: option.splits)
qed

theorem generateCompatibilityScore_range_witness:
  "generateCompatibilityScore (Some profile_a) (Some profile_b) = 85 \<and>
   generateCompatibilityScore (Some profile_a) (Some profile_b) \<in> {70, 75, 80, 85, 90, 95} \<and>
   generateCompatibilityScore None (Some profile_b) = 0 \<and>
   generateCompatibilityScore (Some profile_a) None = 0"
  using generateCompatibilityScore_range [of "Some profile_a" "Some profile_b" profile_a profile_b]
    generateCompatibilityScore_range [of None "Some profile_b" profile_a profile_b]
    generateCompatibilityScore_range [of "Some profile_a" None profile_a profile_b]
  by (simp add: score_before_cap_def profile_a_def profile_b_def Let_def)

lemma score_before_cap_commute:
  "score_before_cap a b = score_before_cap b a"
  by (simp add: score_before_cap_def Let_def eq_commute abs_minus_commute)

text \<open>
  Claim C9. The score is symmetric: exchanging \<open>match1\<close> and \<open>match2\<close> gives the same
  value, whether the matches are present or absent.
\<close>

theorem generateCompatibilityScore_symmetric:
  "generateCompatibilityScore match1 match2 = generateCompatibilityScore match2 match1"
  by (simp add: generateCompatibilityScore_def score_before_cap_commute split: option.splits)

section \<open>Properties of the match route\<close>

subsection \<open>What every response holds\<close>

lemma GET_ok: "ok (GET ps)"
  by (simp add: ok_def GET_def Response_json_def)

lemma GET_status: "status (GET ps) = 200"
  by (simp add: GET_def Response_json_def)

lemma GET_results: "response_results (GET ps) = mockResults"
  by (simp add: response_results_def GET_def Response_json_def property_def)

lemma GET_candidates: "number_property ''candidates'' (body (GET ps)) = Some 45"
  by (simp add: number_property_def GET_def Response_json_def property_def)

lemma GET_result_ids:
  "result_ids (GET ps) =
     [Some ''507f1f77bcf86cd799439011'', Some ''507f1f77bcf86cd799439012'',
      Some ''507f1f77bcf86cd799439013'']"
  by (simp add: result_ids_def GET_results mockResults_def string_property_def property_def)

text \<open>
  Every record of the results has an \<open>_id\<close>, and no \<open>_id\<close> appears twice. The records
  carry no similarity score: the route computes none, and the list comes in the fixed
  order of \<open>mockResults\<close>.
\<close>

lemma GET_result_ids_distinct:
  "distinct (result_ids (GET ps)) \<and> None \<notin> set (result_ids (GET ps))"
  by (simp add: GET_result_ids)

subsection \<open>Requests without \<open>query\<close> and \<open>user_id\<close>\<close>

text \<open>
  Claim C1, as amended. A request that supplies neither \<open>query\<close> nor \<open>user_id\<close> is
  not answered with an error: the response is a success of status 200, its \<open>query\<close>
  is the default text \<open>looking for suitable partner\<close>, and its results are the three
  fixed records.
\<close>

theorem GET_without_mode_parameters:
  "searchParams_get ps ''query'' = None \<Longrightarrow> searchParams_get ps ''user_id'' = None \<Longrightarrow>
     ok (GET ps) \<and> status (GET ps) = 200 \<and>
     string_property ''query'' (body (GET ps)) = Some ''looking for suitable partner'' \<and>
     response_results (GET ps) = mockResults"
  by (simp add: GET_ok GET_status GET_results)
    (simp add: GET_def Response_json_def string_property_def property_def)

theorem GET_without_mode_parameters_witness:
  "ok (GET [(''gender'', ''Male'')]) \<and>
   string_property ''query'' (body (GET [(''gender'', ''Male'')])) =
     Some ''looking for suitable partner''"
  using GET_without_mode_parameters [of "[(''gender'', ''Male'')]"]
  by (simp add: searchParams_get_def)

text \<open>
  The claim as stated fails at the request with no parameter at all: neither \<open>query\<close>
  nor \<open>user_id\<close> is supplied, and the response is a success.
\<close>

theorem GET_neither_parameter_counterexample:
  "searchParams_get [] ''query'' = None \<and> searchParams_get [] ''user_id'' = None \<and>
   ok (GET [])"
  by (simp add: searchParams_get_def GET_ok)

subsection \<open>Results and filters\<close>

lemma toLowerCase_Female: "toLowerCase ''Female'' = ''female''"
  by (simp add: toLowerCase_def lower_char_def)

lemma toLowerCase_Hindu: "toLowerCase ''Hindu'' = ''hindu''"
  by (simp add: toLowerCase_def lower_char_def)

lemma toLowerCase_Never_Married: "toLowerCase ''Never Married'' = ''never married''"
  by (simp add: toLowerCase_def lower_char_def)

lemma castes_differ: "toLowerCase ''Brahmin'' \<noteq> toLowerCase ''Kshatriya''"
  by (simp add: toLowerCase_def lower_char_def)

lemma states_differ: "toLowerCase ''California'' \<noteq> toLowerCase ''Texas''"
  by (simp add: toLowerCase_def lower_char_def)

lemma mockResults_strings:
  "map (string_property ''Gender'') mockResults =
     [Some ''Female'', Some ''Female'', Some ''Female'']"
  "map (string_property ''Caste'') mockResults =
     [Some ''Brahmin'', Some ''Kshatriya'', Some ''Brahmin'']"
  "map (string_property ''Sect'') mockResults = [Some ''Hindu'', Some ''Hindu'', Some ''Hindu'']"
  "map (string_property ''State'') mockResults =
     [Some ''California'', Some ''Texas'', Some ''New York'']"
  "map (string_property ''Marital_Status'') mockResults =
     [Some ''Never Married'', Some ''Never Married'', Some ''Never Married'']"
  by (simp_all add: mockResults_def string_property_def property_def)

lemma mockResults_ages:
  "map (number_property ''Age'') mockResults = [Some 28, Some 26, Some 29]"
  by (simp add: mockResults_def number_property_def property_def)

lemma list_all_string_filter:
  "list_all (string_filter_holds fs name field) rs =
     (case fs name of
        None \<Rightarrow> True
      | Some v \<Rightarrow>
          list_all (\<lambda>s. case s of None \<Rightarrow> False | Some s \<Rightarrow> toLowerCase s = toLowerCase v)
            (map (string_property field) rs))"
  by (induction rs) (auto simp: string_filter_holds_def split: option.splits)

lemma list_all_min_age:
  "list_all (min_age_holds fs) rs =
     (case age_bound fs ''min_age'' of
        Unspecified \<Rightarrow> True
      | Bound lo \<Rightarrow>
          list_all (\<lambda>a. case a of None \<Rightarrow> False | Some a \<Rightarrow> lo \<le> a)
            (map (number_property ''Age'') rs)
      | Malformed \<Rightarrow> rs = [])"
  by (induction rs) (auto simp: min_age_holds_def split: option.splits bound.splits)

lemma list_all_max_age:
  "list_all (max_age_holds fs) rs =
     (case age_bound fs ''max_age'' of
        Unspecified \<Rightarrow> True
      | Bound hi \<Rightarrow>
          list_all (\<lambda>a. case a of None \<Rightarrow> False | Some a \<Rightarrow> a \<le> hi)
            (map (number_property ''Age'') rs)
      | Malformed \<Rightarrow> rs = [])"
  by (induction rs) (auto simp: max_age_holds_def split: option.splits bound.splits)

lemma list_all_satisfies_filters:
  "list_all (satisfies_filters fs) rs =
     (list_all (string_filter_holds fs ''gender'' ''Gender'') rs \<and>
      list_all (min_age_holds fs) rs \<and>
      list_all (max_age_holds fs) rs \<and>
      list_all (string_filter_holds fs ''caste'' ''Caste'') rs \<and>
      list_all (string_filter_holds fs ''sect'' ''Sect'') rs \<and>
      list_all (string_filter_holds fs ''state'' ''State'') rs \<and>
      list_all (string_filter_holds fs ''marital_status'' ''Marital_Status'') rs)"
  by (induction rs) (auto simp: satisfies_filters_def)

lemma mockResults_not_empty: "mockResults \<noteq> []"
  by (simp add: mockResults_def)

lemma foldl_entries:
  "foldl (\<lambda>obj (k, v). obj(k \<mapsto> f v)) m ps =
     m ++ map_of (rev (map (\<lambda>(k, v). (k, f v)) ps))"
  by (induction ps arbitrary: m) (auto simp: map_add_upd_left)

lemma map_of_map_value:
  "map_of (map (\<lambda>(k, v). (k, f v)) ps) k = map_option f (map_of ps k)"
  by (induction ps) auto

lemma fromEntries_last:
  "fromEntries ps = JObject (\<lambda>k. map_option JString (map_of (rev ps) k))"
proof -
  have "map_of (rev (map (\<lambda>(k, v). (k, JString v)) ps)) =
      (\<lambda>k. map_option JString (map_of (rev ps) k))"
    by (rule ext) (simp add: rev_map map_of_map_value)
  then show ?thesis
    by (simp add: fromEntries_def foldl_entries)
qed

text \<open>The \<open>filters\<close> of the response echo what the request specifies.\<close>

lemma GET_filters_echo: "response_filters (GET ps) = request_filters ps"
proof (rule ext)
  fix name
  have "property ''filters'' (body (GET ps)) = Some (fromEntries ps)"
    by (simp add: GET_def Response_json_def property_def)
  then show "response_filters (GET ps) name = request_filters ps name"
    by (cases "map_of (rev ps) name")
      (simp_all add: response_filters_def request_filters_def fromEntries_last
        string_property_def property_def)
qed

text \<open>
  Claim C2, as amended. The route echoes the filters and does not apply them: the
  \<open>filters\<close> of the response are the filters that the request specifies, and the
  results are the three fixed records whatever the filters. Every record of the results
  satisfies every specified filter exactly when the filters admit all three fixed
  records: \<open>gender\<close>, if specified, is \<open>female\<close>, \<open>sect\<close> is \<open>hindu\<close> and
  \<open>marital_status\<close> is \<open>never married\<close> (each without regard to case), \<open>min_age\<close> is
  an integer at most 26, \<open>max_age\<close> is an integer at least 29, and neither \<open>caste\<close> nor
  \<open>state\<close> is specified.
\<close>

theorem GET_results_satisfy_filters_iff:
  "response_filters (GET ps) = request_filters ps \<and>
   response_results (GET ps) = mockResults \<and>
   all_results_satisfy ps (GET ps) =
     ((case request_filters ps ''gender'' of
         None \<Rightarrow> True
       | Some v \<Rightarrow> toLowerCase v = ''female'') \<and>
      (case request_filters ps ''min_age'' of
         None \<Rightarrow> True
       | Some v \<Rightarrow> (case parse_int v of None \<Rightarrow> False | Some lo \<Rightarrow> lo \<le> 26)) \<and>
      (case request_filters ps ''max_age'' of
         None \<Rightarrow> True
       | Some v \<Rightarrow> (case parse_int v of None \<Rightarrow> False | Some hi \<Rightarrow> 29 \<le> hi)) \<and>
      request_filters ps ''caste'' = None \<and>
      (case request_filters ps ''sect'' of
         None \<Rightarrow> True
       | Some v \<Rightarrow> toLowerCase v = ''hindu'') \<and>
      request_filters ps ''state'' = None \<and>
      (case request_filters ps ''marital_status'' of
         None \<Rightarrow> True
       | Some v \<Rightarrow> toLowerCase v = ''never married''))"
proof -
  let ?fs = "request_filters ps"
  have g: "list_all (string_filter_holds ?fs ''gender'' ''Gender'') mockResults =
      (case ?fs ''gender'' of None \<Rightarrow> True | Some v \<Rightarrow> toLowerCase v = ''female'')"
    by (auto simp: list_all_string_filter mockResults_strings toLowerCase_Female
        split: option.splits)
  have c: "list_all (string_filter_holds ?fs ''caste'' ''Caste'') mockResults =
      (?fs ''caste'' = None)"
    using castes_differ
    by (auto simp: list_all_string_filter mockResults_strings split: option.splits)
  have s: "list_all (string_filter_holds ?fs ''sect'' ''Sect'') mockResults =
      (case ?fs ''sect'' of None \<Rightarrow> True | Some v \<Rightarrow> toLowerCase v = ''hindu'')"
    by (auto simp: list_all_string_filter mockResults_strings toLowerCase_Hindu
        split: option.splits)
  have st: "list_all (string_filter_holds ?fs ''state'' ''State'') mockResults =
      (?fs ''state'' = None)"
    using states_differ
    by (auto simp: list_all_string_filter mockResults_strings split: option.splits)
  have m: "list_all (string_filter_holds ?fs ''marital_status'' ''Marital_Status'') mockResults =
      (case ?fs ''marital_status'' of
         None \<Rightarrow> True
       | Some v \<Rightarrow> toLowerCase v = ''never married'')"
    by (auto simp: list_all_string_filter mockResults_strings toLowerCase_Never_Married
        split: option.splits)
  have lo: "list_all (min_age_holds ?fs) mockResults =
      (case ?fs ''min_age'' of
         None \<Rightarrow> True
       | Some v \<Rightarrow> (case parse_int v of None \<Rightarrow> False | Some lo \<Rightarrow> lo \<le> 26))"
    using mockResults_not_empty
    by (auto simp: list_all_min_age mockResults_ages age_bound_def split: option.splits)
  have hi: "list_all (max_age_holds ?fs) mockResults =
      (case ?fs ''max_age'' of
         None \<Rightarrow> True
       | Some v \<Rightarrow> (case parse_int v of None \<Rightarrow> False | Some hi \<Rightarrow> 29 \<le> hi))"
    using mockResults_not_empty
    by (auto simp: list_all_max_age mockResults_ages age_bound_def split: option.splits)
  have sat: "all_results_satisfy ps (GET ps) =
      (list_all (string_filter_holds ?fs ''gender'' ''Gender'') mockResults \<and>
       list_all (min_age_holds ?fs) mockResults \<and>
       list_all (max_age_holds ?fs) mockResults \<and>
       list_all (string_filter_holds ?fs ''caste'' ''Caste'') mockResults \<and>
       list_all (string_filter_holds ?fs ''sect'' ''Sect'') mockResults \<and>
       list_all (string_filter_holds ?fs ''state'' ''State'') mockResults \<and>
       list_all (string_filter_holds ?fs ''marital_status'' ''Marital_Status'') mockResults)"
    unfolding all_results_satisfy_def GET_results
    by (rule list_all_satisfies_filters)
  show ?thesis
    unfolding sat g c s st m lo hi
    using GET_filters_echo [of ps] GET_results [of ps]
    by simp
qed

text \<open>
  The theorem at concrete requests. A repeated \<open>gender\<close> counts with its last value;
  a signed integer is a bound; a bound that is not an integer (the empty string
  included), or a \<open>max_age\<close> below 29, is not satisfied.
\<close>

theorem GET_results_satisfy_filters_iff_witness:
  "all_results_satisfy
     [(''query'', ''caring partner''), (''gender'', ''Male''), (''gender'', ''FEMALE''),
      (''min_age'', ''24''), (''max_age'', ''+32''), (''sect'', ''Hindu'')]
     (GET [(''query'', ''caring partner''), (''gender'', ''Male''), (''gender'', ''FEMALE''),
           (''min_age'', ''24''), (''max_age'', ''+32''), (''sect'', ''Hindu'')]) \<and>
   response_filters
     (GET [(''query'', ''caring partner''), (''gender'', ''Male''), (''gender'', ''FEMALE''),
           (''min_age'', ''24''), (''max_age'', ''+32''), (''sect'', ''Hindu'')]) ''gender'' =
     Some ''FEMALE'' \<and>
   \<not> all_results_satisfy [(''gender'', ''Female''), (''gender'', ''Male'')]
       (GET [(''gender'', ''Female''), (''gender'', ''Male'')]) \<and>
   \<not> all_results_satisfy [(''max_age'', ''28'')] (GET [(''max_age'', ''28'')]) \<and>
   \<not> all_results_satisfy [(''max_age'', ''-5'')] (GET [(''max_age'', ''-5'')]) \<and>
   \<not> all_results_satisfy [(''min_age'', ''99.5'')] (GET [(''min_age'', ''99.5'')]) \<and>
   \<not> all_results_satisfy [(''min_age'', [])] (GET [(''min_age'', [])])"
  using GET_results_satisfy_filters_iff
    [of "[(''query'', ''caring partner''), (''gender'', ''Male''), (''gender'', ''FEMALE''),
          (''min_age'', ''24''), (''max_age'', ''+32''), (''sect'', ''Hindu'')]"]
    GET_results_satisfy_filters_iff [of "[(''gender'', ''Female''), (''gender'', ''Male'')]"]
    GET_results_satisfy_filters_iff [of "[(''max_age'', ''28'')]"]
    GET_results_satisfy_filters_iff [of "[(''max_age'', ''-5'')]"]
    GET_results_satisfy_filters_iff [of "[(''min_age'', ''99.5'')]"]
    GET_results_satisfy_filters_iff [of "[(''min_age'', [])]"]
  by (simp add: request_filters_def parse_int_def unsigned_int_def digit_value_def
      toLowerCase_def lower_char_def)

text \<open>
  The claim as stated fails at a request with \<open>gender=Male\<close>: the results are the three
  records of gender \<open>Female\<close>.
\<close>

theorem GET_gender_filter_counterexample:
  "\<not> all_results_satisfy
       [(''query'', ''Looking for educated caring partner''), (''gender'', ''Male'')]
       (GET [(''query'', ''Looking for educated caring partner''), (''gender'', ''Male'')])"
  by (simp add: all_results_satisfy_def GET_results mockResults_def satisfies_filters_def
      string_filter_holds_def request_filters_def string_property_def property_def
      toLowerCase_def lower_char_def)

subsection \<open>Queries that no candidate satisfies\<close>

text \<open>
  Claim C3, as amended. For every match query, also one under which none of the
  candidates satisfies the specified filters, the response is a success and not an
  error; its results list is not empty but holds the three fixed records, and its
  \<open>candidates\<close> field is 45.
\<close>

theorem GET_response_without_qualifying_candidate:
  "ok (GET ps) \<and> response_results (GET ps) = mockResults \<and> length (response_results (GET ps)) = 3 \<and>
   number_property ''candidates'' (body (GET ps)) = Some 45"
  by (simp add: GET_ok GET_results GET_candidates) (simp add: mockResults_def)

text \<open>
  The claim as stated fails at a request with \<open>caste=Syed\<close>: no candidate has that
  caste, and yet the results are not empty and \<open>candidates\<close> is not 0.
\<close>

theorem GET_no_candidate_counterexample:
  "no_candidate_satisfies [(''query'', ''caring partner''), (''caste'', ''Syed'')] \<and>
   \<not> (ok (GET [(''query'', ''caring partner''), (''caste'', ''Syed'')]) \<and>
       response_results (GET [(''query'', ''caring partner''), (''caste'', ''Syed'')]) = [] \<and>
       number_property ''candidates''
         (body (GET [(''query'', ''caring partner''), (''caste'', ''Syed'')])) = Some 0)"
  by (simp add: no_candidate_satisfies_def GET_results GET_candidates mockResults_def
      satisfies_filters_def string_filter_holds_def request_filters_def
      string_property_def property_def toLowerCase_def lower_char_def)

subsection \<open>The seed profile of a request with \<open>user_id\<close>\<close>

text \<open>
  Claim C4, as amended. For a request that supplies \<open>user_id\<close>, the given id is absent
  from the \<open>_id\<close>s of the results exactly when it is none of the three fixed ids
  \<open>507f1f77bcf86cd799439011\<close>, \<open>507f1f77bcf86cd799439012\<close> and
  \<open>507f1f77bcf86cd799439013\<close>: the route excludes nothing.
\<close>

theorem GET_seed_absent_iff:
  "searchParams_get ps ''user_id'' = Some seed \<Longrightarrow>
     (Some seed \<notin> set (result_ids (GET ps))) =
     (seed \<notin> {''507f1f77bcf86cd799439011'', ''507f1f77bcf86cd799439012'',
                ''507f1f77bcf86cd799439013''})"
  by (simp add: GET_result_ids)

theorem GET_seed_absent_iff_witness:
  "Some ''64b7f0c2a1d3e4f5a6b7c8d9'' \<notin>
     set (result_ids (GET [(''user_id'', ''64b7f0c2a1d3e4f5a6b7c8d9''), (''top_k'', ''10'')]))"
  using GET_seed_absent_iff
    [of "[(''user_id'', ''64b7f0c2a1d3e4f5a6b7c8d9''), (''top_k'', ''10'')]"
      "''64b7f0c2a1d3e4f5a6b7c8d9''"]
  by (simp add: searchParams_get_def)

text \<open>
  The claim as stated fails when \<open>user_id\<close> is the id of the first fixed record: that
  id is the \<open>_id\<close> of a result.
\<close>

theorem GET_seed_in_results_counterexample:
  "searchParams_get [(''user_id'', ''507f1f77bcf86cd799439011'')] ''user_id'' =
     Some ''507f1f77bcf86cd799439011'' \<and>
   Some ''507f1f77bcf86cd799439011'' \<in>
     set (result_ids (GET [(''user_id'', ''507f1f77bcf86cd799439011'')]))"
  by (simp add: GET_result_ids searchParams_get_def)

subsection \<open>The parameter \<open>top_k\<close>\<close>

text \<open>
  Claim C5, as amended. The route does not read \<open>top_k\<close>. Whatever \<open>top_k\<close> is, 0 and
  values above the maximum included, the request is not rejected: the response is a
  success whose results list has exactly three entries. So when \<open>top_k\<close> exceeds a
  maximum bound of at least 3, the list has no more entries than the clamped \<open>top_k\<close>.
\<close>

theorem GET_ignores_top_k:
  "ok (GET ps) \<and> length (response_results (GET ps)) = 3 \<and>
   (top_k ps = Some k \<and> bound < k \<and> 3 \<le> bound \<longrightarrow>
      length (response_results (GET ps)) \<le> min k bound)"
  by (simp add: GET_ok GET_results mockResults_def)

theorem GET_ignores_top_k_witness:
  "top_k [(''query'', ''caring partner''), (''top_k'', ''500'')] = Some 500 \<and>
   ok (GET [(''query'', ''caring partner''), (''top_k'', ''500'')]) \<and>
   length (response_results (GET [(''query'', ''caring partner''), (''top_k'', ''500'')]))
     \<le> min 500 100"
  using GET_ignores_top_k [of "[(''query'', ''caring partner''), (''top_k'', ''500'')]" 500 100]
  by (simp add: top_k_def searchParams_get_def digit_value_def)

text \<open>
  The claim as stated fails at \<open>top_k=0\<close>: the response is a success, and its results
  list is not empty.
\<close>

theorem GET_top_k_zero_counterexample:
  "top_k [(''query'', ''caring partner''), (''top_k'', ''0'')] = Some 0 \<and>
   \<not> (ok (GET [(''query'', ''caring partner''), (''top_k'', ''0'')]) \<and>
       response_results (GET [(''query'', ''caring partner''), (''top_k'', ''0'')]) = [])"
  by (simp add: top_k_def searchParams_get_def digit_value_def GET_results mockResults_def)

subsection \<open>The shape of the response body\<close>

lemma mockResults_profile_shaped: "list_all profile_shaped mockResults"
  by (simp add: mockResults_def profile_shaped_def is_string_def is_number_def
      is_optional_string_def)

text \<open>
  Claim C6. The response of every request is a success whose body is an object with
  exactly the properties \<open>query\<close>, \<open>filters\<close>, \<open>candidates\<close>, \<open>took_ms\<close> and
  \<open>results\<close>. \<open>query\<close> is a string, \<open>candidates\<close> and \<open>took_ms\<close> are numbers;
  \<open>filters\<close> is the object that maps each supplied parameter name to its value (the
  last one, when a name is supplied more than once) and has no other property;
  \<open>results\<close> is a list of records of the shape of a profile.
\<close>

theorem GET_body_shape:
  "ok (GET ps) \<and>
   object_keys (body (GET ps)) =
     Some {''query'', ''filters'', ''candidates'', ''took_ms'', ''results''} \<and>
   is_string (property ''query'' (body (GET ps))) \<and>
   property ''filters'' (body (GET ps)) =
     Some (JObject (\<lambda>k. map_option JString (map_of (rev ps) k))) \<and>
   is_number (property ''candidates'' (body (GET ps))) \<and>
   is_number (property ''took_ms'' (body (GET ps))) \<and>
   property ''results'' (body (GET ps)) = Some (JArray (response_results (GET ps))) \<and>
   list_all profile_shaped (response_results (GET ps))"
proof -
  have keys: "object_keys (body (GET ps)) =
      Some {''query'', ''filters'', ''candidates'', ''took_ms'', ''results''}"
    by (auto simp: object_keys_def GET_def Response_json_def)
  have rest: "is_string (property ''query'' (body (GET ps))) \<and>
      property ''filters'' (body (GET ps)) = Some (fromEntries ps) \<and>
      is_number (property ''candidates'' (body (GET ps))) \<and>
      is_number (property ''took_ms'' (body (GET ps))) \<and>
      property ''results'' (body (GET ps)) = Some (JArray mockResults)"
    by (simp add: GET_def Response_json_def property_def is_string_def is_number_def)
  show ?thesis
    using keys rest mockResults_profile_shaped
    by (simp add: GET_ok GET_results fromEntries_last)
qed

theorem GET_body_shape_witness:
  "property ''filters'' (body (GET [(''caste'', ''Syed''), (''top_k'', ''10''), (''caste'', ''Khan'')])) =
     Some (JObject [''caste'' \<mapsto> JString ''Khan'', ''top_k'' \<mapsto> JString ''10'']) \<and>
   list_all profile_shaped
     (response_results (GET [(''caste'', ''Syed''), (''top_k'', ''10''), (''caste'', ''Khan'')]))"
proof -
  have "(\<lambda>k. map_option JString
        (map_of (rev [(''caste'', ''Syed''), (''top_k'', ''10''), (''caste'', ''Khan'')]) k)) =
      [''caste'' \<mapsto> JString ''Khan'', ''top_k'' \<mapsto> JString ''10'']"
    by (rule ext) simp
  then show ?thesis
    using GET_body_shape [of "[(''caste'', ''Syed''), (''top_k'', ''10''), (''caste'', ''Khan'')]"]
    by simp
qed

section \<open>Properties of the search request\<close>

lemma append_if_value_eq: "append_if_value qp name x = qp @ optional_param name x"
  by (simp add: optional_param_def append_if_value_def searchParams_append_def
      split: option.splits)

text \<open>The query parameters, written as the concatenation of what each statement adds.\<close>

lemma handleSearch_queryParams_eq:
  "handleSearch_queryParams p =
     optional_param ''query'' (preference p) @
     optional_param ''user_id'' (user_id p) @
     optional_param ''gender'' (gender p) @
     (if same_gender p = Some True then [(''same_gender'', ''true'')] else []) @
     optional_param ''caste'' (caste p) @
     optional_param ''sect'' (sect p) @
     optional_param ''marital_status'' (marital_status p) @
     optional_param ''state'' (state p) @
     (case age_tolerance p of None \<Rightarrow> [] | Some t \<Rightarrow> [(''age_tolerance'', toString t)]) @
     (case age_range p of
        None \<Rightarrow> []
      | Some (lo, hi) \<Rightarrow> [(''min_age'', toString lo), (''max_age'', toString hi)]) @
     [(''top_k'', ''10'')]"
  unfolding handleSearch_queryParams_def Let_def append_if_value_eq searchParams_append_def
  by (simp split: option.splits)

lemma has_append:
  "searchParams_has (xs @ ys) k \<longleftrightarrow> searchParams_has xs k \<or> searchParams_has ys k"
  by (auto simp: searchParams_has_def)

lemma has_optional_param:
  "searchParams_has (optional_param name x) k \<longleftrightarrow>
     k = name \<and> (\<exists>v. x = Some v \<and> v \<noteq> [])"
  by (cases x)
    (simp_all add: searchParams_has_def optional_param_def append_if_value_def
      searchParams_append_def)

lemma has_handleSearch_queryParams:
  "searchParams_has (handleSearch_queryParams p) k \<longleftrightarrow>
     k = ''query'' \<and> (\<exists>v. preference p = Some v \<and> v \<noteq> []) \<or>
     k = ''user_id'' \<and> (\<exists>v. user_id p = Some v \<and> v \<noteq> []) \<or>
     k = ''gender'' \<and> (\<exists>v. gender p = Some v \<and> v \<noteq> []) \<or>
     k = ''same_gender'' \<and> same_gender p = Some True \<or>
     k = ''caste'' \<and> (\<exists>v. caste p = Some v \<and> v \<noteq> []) \<or>
     k = ''sect'' \<and> (\<exists>v. sect p = Some v \<and> v \<noteq> []) \<or>
     k = ''marital_status'' \<and> (\<exists>v. marital_status p = Some v \<and> v \<noteq> []) \<or>
     k = ''state'' \<and> (\<exists>v. state p = Some v \<and> v \<noteq> []) \<or>
     k = ''age_tolerance'' \<and> age_tolerance p \<noteq> None \<or>
     (k = ''min_age'' \<or> k = ''max_age'') \<and> age_range p \<noteq> None \<or>
     k = ''top_k''"
proof -
  have t: "searchParams_has
        (case age_tolerance p of None \<Rightarrow> [] | Some t \<Rightarrow> [(''age_tolerance'', toString t)]) k \<longleftrightarrow>
      k = ''age_tolerance'' \<and> age_tolerance p \<noteq> None"
    by (cases "age_tolerance p") (simp_all add: searchParams_has_def)
  have r: "searchParams_has
        (case age_range p of
           None \<Rightarrow> []
         | Some (lo, hi) \<Rightarrow> [(''min_age'', toString lo), (''max_age'', toString hi)]) k \<longleftrightarrow>
      (k = ''min_age'' \<or> k = ''max_age'') \<and> age_range p \<noteq> None"
  proof (cases "age_range p")
    case None
    then show ?thesis
      by (simp add: searchParams_has_def)
  next
    case (Some range)
    obtain lo hi where "range = (lo, hi)"
      by (cases range)
    with Some show ?thesis
      by (simp add: searchParams_has_def)
  qed
  have g: "searchParams_has
        (if same_gender p = Some True then [(''same_gender'', ''true'')] else []) k \<longleftrightarrow>
      k = ''same_gender'' \<and> same_gender p = Some True"
    by (cases "same_gender p = Some True") (simp_all add: searchParams_has_def)
  have l: "searchParams_has [(''top_k'', ''10'')] k \<longleftrightarrow> k = ''top_k''"
    by (simp add: searchParams_has_def)
  show ?thesis
    unfolding handleSearch_queryParams_eq has_append has_optional_param t r g l
    by (rule refl)
qed

text \<open>
  Claim C10. The URL that \<open>handleSearch\<close> builds for \<open>/match\<close> contains \<open>query\<close>
  exactly when \<open>preference\<close> is a non-empty string, \<open>user_id\<close> exactly when \<open>user_id\<close>
  is a non-empty string, \<open>same_gender\<close> (and then as \<open>same_gender=true\<close>) exactly when
  \<open>same_gender\<close> is true, \<open>min_age\<close> and \<open>max_age\<close> each exactly when \<open>age_range\<close> is
  provided, hence together, and it always contains \<open>top_k=10\<close>.
\<close>

theorem handleSearch_url_parameters:
  "has_param (handleSearch_url p) ''query'' = (\<exists>v. preference p = Some v \<and> v \<noteq> []) \<and>
   has_param (handleSearch_url p) ''user_id'' = (\<exists>v. user_id p = Some v \<and> v \<noteq> []) \<and>
   has_param (handleSearch_url p) ''same_gender'' = (same_gender p = Some True) \<and>
   has_pair (handleSearch_url p) ''same_gender'' ''true'' = (same_gender p = Some True) \<and>
   has_param (handleSearch_url p) ''min_age'' = (age_range p \<noteq> None) \<and>
   has_param (handleSearch_url p) ''max_age'' = (age_range p \<noteq> None) \<and>
   has_pair (handleSearch_url p) ''top_k'' ''10''"
proof -
  have keys: "has_param (handleSearch_url p) k = searchParams_has (handleSearch_queryParams p) k"
    for k
    by (simp add: has_param_def handleSearch_url_def)
  have q: "has_param (handleSearch_url p) ''query'' = (\<exists>v. preference p = Some v \<and> v \<noteq> [])"
    unfolding keys has_handleSearch_queryParams by simp
  have u: "has_param (handleSearch_url p) ''user_id'' = (\<exists>v. user_id p = Some v \<and> v \<noteq> [])"
    unfolding keys has_handleSearch_queryParams by simp
  have s: "has_param (handleSearch_url p) ''same_gender'' = (same_gender p = Some True)"
    unfolding keys has_handleSearch_queryParams by simp
  have lo: "has_param (handleSearch_url p) ''min_age'' = (age_range p \<noteq> None)"
    unfolding keys has_handleSearch_queryParams by simp
  have hi: "has_param (handleSearch_url p) ''max_age'' = (age_range p \<noteq> None)"
    unfolding keys has_handleSearch_queryParams by simp
  have top: "has_pair (handleSearch_url p) ''top_k'' ''10''"
    by (simp add: has_pair_def handleSearch_url_def handleSearch_queryParams_eq)
  have pair: "has_pair (handleSearch_url p) ''same_gender'' ''true'' = (same_gender p = Some True)"
  proof
    assume "has_pair (handleSearch_url p) ''same_gender'' ''true''"
    then have "(''same_gender'', ''true'') \<in> set (handleSearch_queryParams p)"
      by (simp add: has_pair_def handleSearch_url_def)
    then have "fst (''same_gender'', ''true'') \<in> fst ` set (handleSearch_queryParams p)"
      by (rule imageI)
    then have "searchParams_has (handleSearch_queryParams p) ''same_gender''"
      by (simp add: searchParams_has_def)
    then show "same_gender p = Some True"
      unfolding has_handleSearch_queryParams by simp
  next
    assume "same_gender p = Some True"
    then show "has_pair (handleSearch_url p) ''same_gender'' ''true''"
      by (simp add: has_pair_def handleSearch_url_def handleSearch_queryParams_eq)
  qed
  show ?thesis
    using q u s pair lo hi top by blast
qed

theorem handleSearch_url_parameters_witness:
  "has_param (handleSearch_url form_params) ''query'' \<and>
   \<not> has_param (handleSearch_url form_params) ''user_id'' \<and>
   \<not> has_param (handleSearch_url form_params) ''same_gender'' \<and>
   \<not> has_pair (handleSearch_url form_params) ''same_gender'' ''true'' \<and>
   has_param (handleSearch_url form_params) ''min_age'' \<and>
   has_param (handleSearch_url form_params) ''max_age'' \<and>
   has_pair (handleSearch_url form_params) ''top_k'' ''10''"
  using handleSearch_url_parameters [of form_params]
  by (simp add: form_params_def)

text \<open>The parameters of that request, computed.\<close>

lemma handleSearch_queryParams_form_params:
  "handleSearch_queryParams form_params =
     [(''query'', ''educated partner''), (''gender'', ''Male''), (''age_tolerance'', ''5''),
      (''min_age'', ''22''), (''max_age'', ''32''), (''top_k'', ''10'')]"
  by (simp add: handleSearch_queryParams_def form_params_def append_if_value_def
      searchParams_append_def toString_def digits.simps)

end
